theory Spec2Isabelle
  imports Complex_Main
begin

section \<open>Numbers and vectors\<close>

text \<open>
  The program computes with \<^verbatim>\<open>float\<close> (binary32) and \<^verbatim>\<open>double\<close> (binary64).
  Two models of its arithmetic are given.

  In the exact model (this section to the section on start-up) every number is a
  \<^typ>\<open>real\<close>, every operation is exact, the conversions between the two types are
  the identity, and \<^verbatim>\<open>0.1f\<close> and \<^verbatim>\<open>0.03f\<close> are the rationals they are written as.
  It carries the properties of the geometry and of the control flow, which do not
  depend on rounding or which the program has up to rounding: the clamp, the unit front
  vector, the strafe vector, the end-to-end scenario, the frame conditions, the loop and
  the shader files.

  In the binary32 model (section Single precision) every operation of the source that
  produces a \<^verbatim>\<open>float\<close> or a \<^verbatim>\<open>double\<close> is followed by the rounding of that type.
  It carries the statements about exact values: the first pointer sample, the
  translation by key ticks, and the accumulated yaw.

  The one way the program can leave the finite numbers from finite inputs of moderate
  size is the normalization of a zero vector; that case is kept in both models (see
  \<open>fvec3\<close> below).

  \<^verbatim>\<open>glm::vec3\<close> has the fields \<^verbatim>\<open>x\<close>, \<^verbatim>\<open>y\<close>, \<^verbatim>\<open>z\<close>; the selectors are named
  \<open>vx\<close>, \<open>vy\<close>, \<open>vz\<close> here.
\<close>

datatype vec3 = Vec3 (vx: real) (vy: real) (vz: real)

text \<open>
  The functions of the GLM library that the program calls, by their definitions in GLM:
  \<^verbatim>\<open>clamp(x, lo, hi) = min(max(x, lo), hi)\<close>, \<^verbatim>\<open>radians(d) = d * (pi / 180)\<close>,
  the componentwise vector operators, \<^verbatim>\<open>dot\<close>, \<^verbatim>\<open>cross\<close>, \<^verbatim>\<open>length\<close>.
\<close>

definition glm_clamp :: "real \<Rightarrow> real \<Rightarrow> real \<Rightarrow> real" where
  "glm_clamp a minVal maxVal = min (max a minVal) maxVal"

definition glm_radians :: "real \<Rightarrow> real" where
  "glm_radians degrees = degrees * pi / 180"

definition vadd :: "vec3 \<Rightarrow> vec3 \<Rightarrow> vec3" where
  "vadd a b = Vec3 (vx a + vx b) (vy a + vy b) (vz a + vz b)"

definition vsub :: "vec3 \<Rightarrow> vec3 \<Rightarrow> vec3" where
  "vsub a b = Vec3 (vx a - vx b) (vy a - vy b) (vz a - vz b)"

definition smul :: "real \<Rightarrow> vec3 \<Rightarrow> vec3" where
  "smul k a = Vec3 (k * vx a) (k * vy a) (k * vz a)"

definition glm_dot :: "vec3 \<Rightarrow> vec3 \<Rightarrow> real" where
  "glm_dot a b = vx a * vx b + vy a * vy b + vz a * vz b"

definition glm_cross :: "vec3 \<Rightarrow> vec3 \<Rightarrow> vec3" where
  "glm_cross a b = Vec3 (vy a * vz b - vy b * vz a)
                        (vz a * vx b - vz b * vx a)
                        (vx a * vy b - vx b * vy a)"


text \<open>
  \<^verbatim>\<open>glm::normalize(v)\<close> is \<^verbatim>\<open>v * inversesqrt(dot(v, v))\<close>. On the zero vector this
  multiplies 0 by the reciprocal of 0, and every component of the result is NaN. The
  model returns \<open>None\<close> there instead of the value HOL gives to a division by zero.
\<close>

definition glm_normalize :: "vec3 \<Rightarrow> vec3 option" where
  "glm_normalize v =
     (if glm_dot v v = 0 then None else Some (smul (1 / sqrt (glm_dot v v)) v))"

text \<open>
  A vector variable of the program: \<open>Some v\<close> when its components are numbers, \<open>None\<close>
  when they are NaN. NaN is absorbing for every operation below, as it is for the
  floating-point operations.
\<close>

type_synonym fvec3 = "vec3 option"

definition fadd :: "fvec3 \<Rightarrow> fvec3 \<Rightarrow> fvec3" where
  "fadd a b = (case a of None \<Rightarrow> None | Some u \<Rightarrow> map_option (vadd u) b)"

definition fsub :: "fvec3 \<Rightarrow> fvec3 \<Rightarrow> fvec3" where
  "fsub a b = (case a of None \<Rightarrow> None | Some u \<Rightarrow> map_option (vsub u) b)"

definition fmul :: "real \<Rightarrow> fvec3 \<Rightarrow> fvec3" where
  "fmul k a = map_option (smul k) a"

definition fcross :: "fvec3 \<Rightarrow> fvec3 \<Rightarrow> fvec3" where
  "fcross a b = (case a of None \<Rightarrow> None | Some u \<Rightarrow> map_option (glm_cross u) b)"

definition fnormalize :: "fvec3 \<Rightarrow> fvec3" where
  "fnormalize a = (case a of None \<Rightarrow> None | Some u \<Rightarrow> glm_normalize u)"

section \<open>Program state\<close>

text \<open>
  The file-scope variables of \<^verbatim>\<open>main.cpp\<close> (lines 20 to 27), the close flag that GLFW
  keeps for the window, and a log of the \<^verbatim>\<open>glDrawArrays\<close> calls: each entry is the
  camera position and front vector that the view matrix of that draw was built from.
  \<open>init\<close> holds the initial values of the exact model; \<open>init_f32\<close> below holds the
  binary32 values of the two constants that are not representable.
\<close>

record state =
  cameraPos :: fvec3
  cameraFront :: fvec3
  cameraUp :: fvec3
  cameraSpeed :: real
  yaw :: real
  pitch :: real
  lastX :: real
  lastY :: real
  firstMouse :: bool
  sensitivity :: real
  shouldClose :: bool
  drawCalls :: "(fvec3 \<times> fvec3) list"

definition WINDOW_WIDTH :: int where
  "WINDOW_WIDTH = 800"

definition WINDOW_HEIGHT :: int where
  "WINDOW_HEIGHT = 600"

text \<open>\<^verbatim>\<open>WINDOW_WIDTH / 2\<close> is an integer division, converted to float afterwards.\<close>

definition init :: state where
  "init = \<lparr> cameraPos = Some (Vec3 0 0 3),
            cameraFront = Some (Vec3 0 0 (-1)),
            cameraUp = Some (Vec3 0 1 0),
            cameraSpeed = 3 / 100,
            yaw = -90,
            pitch = 0,
            lastX = of_int (WINDOW_WIDTH div 2),
            lastY = of_int (WINDOW_HEIGHT div 2),
            firstMouse = True,
            sensitivity = 1 / 10,
            shouldClose = False,
            drawCalls = [] \<rparr>"

section \<open>Mouse look\<close>

text \<open>
  \<^verbatim>\<open>mouse_callback\<close> (lines 167 to 189). The window argument is unused. The local
  variable \<^verbatim>\<open>front\<close> is built from the updated yaw and the clamped pitch.
\<close>

definition direction :: "real \<Rightarrow> real \<Rightarrow> vec3" where
  "direction yw ptch =
     Vec3 (cos (glm_radians yw) * cos (glm_radians ptch))
          (sin (glm_radians ptch))
          (sin (glm_radians yw) * cos (glm_radians ptch))"

definition mouse_callback :: "state \<Rightarrow> real \<Rightarrow> real \<Rightarrow> state" where
  "mouse_callback st xpos ypos =
     (let st1 = (if firstMouse st
                 then st\<lparr>lastX := xpos, lastY := ypos, firstMouse := False\<rparr>
                 else st);
          xOffset = (xpos - lastX st1) * sensitivity st1;
          yOffset = (lastY st1 - ypos) * sensitivity st1;
          st2 = st1\<lparr>lastX := xpos, lastY := ypos\<rparr>;
          st3 = st2\<lparr>yaw := yaw st2 + xOffset\<rparr>;
          st4 = st3\<lparr>pitch := pitch st3 + yOffset\<rparr>;
          st5 = st4\<lparr>pitch := glm_clamp (pitch st4) (-89) 89\<rparr>;
          front = direction (yaw st5) (pitch st5)
      in st5\<lparr>cameraFront := glm_normalize front\<rparr>)"

section \<open>Keyboard input\<close>

text \<open>
  \<^verbatim>\<open>processInput\<close> (lines 192 to 205). \<open>pressed\<close> is the set of keys for which
  \<^verbatim>\<open>glfwGetKey\<close> returns \<^verbatim>\<open>GLFW_PRESS\<close>. Later statements read the position that
  earlier ones wrote.
\<close>

datatype key = KEY_ESCAPE | KEY_W | KEY_S | KEY_A | KEY_D | KEY_OTHER nat

definition processInput :: "key set \<Rightarrow> state \<Rightarrow> state" where
  "processInput pressed st =
     (let st1 = (if KEY_ESCAPE \<in> pressed then st\<lparr>shouldClose := True\<rparr> else st);
          velocity = cameraSpeed st1;
          st2 = (if KEY_W \<in> pressed
                 then st1\<lparr>cameraPos := fadd (cameraPos st1) (fmul velocity (cameraFront st1))\<rparr>
                 else st1);
          st3 = (if KEY_S \<in> pressed
                 then st2\<lparr>cameraPos := fsub (cameraPos st2) (fmul velocity (cameraFront st2))\<rparr>
                 else st2);
          st4 = (if KEY_A \<in> pressed
                 then st3\<lparr>cameraPos := fsub (cameraPos st3)
                        (fmul velocity (fnormalize (fcross (cameraFront st3) (cameraUp st3))))\<rparr>
                 else st3);
          st5 = (if KEY_D \<in> pressed
                 then st4\<lparr>cameraPos := fadd (cameraPos st4)
                        (fmul velocity (fnormalize (fcross (cameraFront st4) (cameraUp st4))))\<rparr>
                 else st4)
      in st5)"

section \<open>Event sequences\<close>





section \<open>Frame loop\<close>

text \<open>
  The loop of \<^verbatim>\<open>main\<close> (lines 258 to 279). One iteration samples the keys, renders
  (one \<^verbatim>\<open>glDrawArrays\<close> call, logged with the camera the view matrix is built from),
  and polls: \<^verbatim>\<open>glfwPollEvents\<close> runs the registered callbacks for the pending events
  and sets the close flag when the user asks to close the window. The resize callback
  only sets the GL viewport. An execution is driven by a list of frames, each holding
  what the environment supplies to one iteration; the list is a finite prefix of the
  input, and the loop stops before a frame when the close flag is set.
\<close>

datatype glfw_event = CursorPos real real | WindowClose | FramebufferSize int int

fun deliver :: "state \<Rightarrow> glfw_event \<Rightarrow> state" where
  "deliver st (CursorPos xpos ypos) = mouse_callback st xpos ypos"
| "deliver st WindowClose = st\<lparr>shouldClose := True\<rparr>"
| "deliver st (FramebufferSize w h) = st"

definition glfwPollEvents :: "glfw_event list \<Rightarrow> state \<Rightarrow> state" where
  "glfwPollEvents evs st = foldl deliver st evs"

record frame =
  keysHeld :: "key set"
  events :: "glfw_event list"

definition render :: "state \<Rightarrow> state" where
  "render st = st\<lparr>drawCalls := drawCalls st @ [(cameraPos st, cameraFront st)]\<rparr>"

definition loop_body :: "frame \<Rightarrow> state \<Rightarrow> state" where
  "loop_body f st = glfwPollEvents (events f) (render (processInput (keysHeld f) st))"

fun main_loop :: "state \<Rightarrow> frame list \<Rightarrow> state" where
  "main_loop st [] = st"
| "main_loop st (f # fs) = (if shouldClose st then st else main_loop (loop_body f st) fs)"

datatype loop_state = Running | Closing

definition loop_state_of :: "state \<Rightarrow> loop_state" where
  "loop_state_of st = (if shouldClose st then Closing else Running)"

section \<open>Shader loading and start-up\<close>

text \<open>
  \<^verbatim>\<open>Shader::readFile\<close> (lines 103 to 113): the files that can be opened are a partial
  map from paths to contents; the exception is the \<open>Inl\<close> result. The GL driver's
  compile and link steps are parameters; they report failures on a diagnostic stream and
  return a handle in every case.
\<close>

datatype error = ios_base_failure string

type_synonym filesystem = "string \<Rightarrow> string option"

definition readFile :: "filesystem \<Rightarrow> string \<Rightarrow> error + string" where
  "readFile fs filepath =
     (case fs filepath of
        Some contents \<Rightarrow> Inr contents
      | None \<Rightarrow> Inl (ios_base_failure (''Failed to read shader file: '' @ filepath)))"

datatype shader_type = GL_VERTEX_SHADER | GL_FRAGMENT_SHADER

record gl_driver =
  compileShader :: "string \<Rightarrow> shader_type \<Rightarrow> nat"
  linkProgram :: "nat \<Rightarrow> nat \<Rightarrow> nat"

definition createShaderProgram :: "gl_driver \<Rightarrow> filesystem \<Rightarrow> string \<Rightarrow> string \<Rightarrow> error + nat" where
  "createShaderProgram gl fs vertexPath fragmentPath =
     (case readFile fs vertexPath of
        Inl e \<Rightarrow> Inl e
      | Inr vertexCode \<Rightarrow>
          (case readFile fs fragmentPath of
             Inl e \<Rightarrow> Inl e
           | Inr fragmentCode \<Rightarrow>
               Inr (linkProgram gl (compileShader gl vertexCode GL_VERTEX_SHADER)
                                   (compileShader gl fragmentCode GL_FRAGMENT_SHADER))))"

record shader =
  ID :: nat

definition Shader :: "gl_driver \<Rightarrow> filesystem \<Rightarrow> string \<Rightarrow> string \<Rightarrow> error + shader" where
  "Shader gl fs vertexPath fragmentPath =
     (case createShaderProgram gl fs vertexPath fragmentPath of
        Inl e \<Rightarrow> Inl e
      | Inr program \<Rightarrow> Inr \<lparr>ID = program\<rparr>)"

definition VERTEX_SHADER_PATH :: string where
  "VERTEX_SHADER_PATH = ''res/shaders/vertex_shader.glsl''"

definition FRAGMENT_SHADER_PATH :: string where
  "FRAGMENT_SHADER_PATH = ''res/shaders/fragment_shader.glsl''"

text \<open>
  \<^verbatim>\<open>main\<close> (lines 208 to 283): the two start-up checks return \<open>-1\<close>; the shader is
  constructed with no handler around it, so its exception leaves \<^verbatim>\<open>main\<close>; then the
  loop runs from the initial values of the globals. \<open>StillRunning\<close> is the outcome when
  the supplied frames end before the close flag is set.
\<close>

record environment =
  windowCreated :: bool
  gladLoaded :: bool
  files :: filesystem
  driver :: gl_driver

datatype outcome = Returned int | Uncaught error | StillRunning

definition main :: "environment \<Rightarrow> frame list \<Rightarrow> outcome \<times> state" where
  "main env frames =
     (if \<not> windowCreated env then (Returned (- 1), init)
      else if \<not> gladLoaded env then (Returned (- 1), init)
      else (case Shader (driver env) (files env) VERTEX_SHADER_PATH FRAGMENT_SHADER_PATH of
              Inl e \<Rightarrow> (Uncaught e, init)
            | Inr sh \<Rightarrow>
                (let st = main_loop init frames
                 in (if shouldClose st then Returned 0 else StillRunning, st))))"

section \<open>Single precision\<close>

text \<open>
  Rounding to a binary floating-point format with \<open>p\<close> significant bits and largest
  exponent \<open>emax\<close>: to the nearest representable value, ties to the even significand
  (the IEEE 754 default). \<open>binade emax a\<close> is the exponent \<open>e\<close> with
  \<open>2^e \<le> a < 2^(e+1)\<close>, found by halving or doubling \<open>a\<close>, and \<open>1 - emax\<close> for the
  smaller values (the subnormal range); the spacing of the format at \<open>a\<close> is
  \<open>2^(e - (p - 1))\<close>. Magnitudes of \<open>2^(emax+1)\<close> and more overflow on the machine and
  are outside the model. \<open>f32\<close> is the rounding of \<^verbatim>\<open>float\<close>, \<open>f64\<close> that of
  \<^verbatim>\<open>double\<close>.
\<close>

definition rne :: "real \<Rightarrow> int" where
  "rne y = (let n = \<lfloor>y\<rfloor>; d = y - of_int n
            in if d < 1 / 2 then n else if 1 / 2 < d then n + 1
               else if even n then n else n + 1)"

fun halvings :: "nat \<Rightarrow> real \<Rightarrow> nat" where
  "halvings 0 a = 0"
| "halvings (Suc n) a = (if a < 2 then 0 else Suc (halvings n (a / 2)))"

fun doublings :: "nat \<Rightarrow> real \<Rightarrow> nat" where
  "doublings 0 a = 0"
| "doublings (Suc n) a = (if 1 \<le> a then 0 else Suc (doublings n (2 * a)))"

definition binade :: "nat \<Rightarrow> real \<Rightarrow> int" where
  "binade emax a =
     (if 1 \<le> a then int (halvings emax a) else - int (doublings (emax - 1) a))"

definition round_binary :: "nat \<Rightarrow> nat \<Rightarrow> real \<Rightarrow> real" where
  "round_binary p emax x =
     (if x = 0 then 0
      else (let u = 2 powi (binade emax \<bar>x\<bar> - int (p - 1)) in of_int (rne (x / u)) * u))"

definition f32 :: "real \<Rightarrow> real" where
  "f32 x = round_binary 24 127 x"

definition f64 :: "real \<Rightarrow> real" where
  "f64 x = round_binary 53 1023 x"

text \<open>
  The operations of GLM on \<^verbatim>\<open>float\<close> vectors, one rounding after each arithmetic
  operation of their definitions (no extended precision, no fused multiply-add):
  \<^verbatim>\<open>dot\<close> adds the three products from left to right, \<^verbatim>\<open>inversesqrt(a)\<close> is
  \<^verbatim>\<open>1 / sqrt(a)\<close>, \<^verbatim>\<open>normalize(v)\<close> is \<^verbatim>\<open>v * inversesqrt(dot(v, v))\<close>.
\<close>

definition vadd32 :: "vec3 \<Rightarrow> vec3 \<Rightarrow> vec3" where
  "vadd32 a b = Vec3 (f32 (vx a + vx b)) (f32 (vy a + vy b)) (f32 (vz a + vz b))"

definition vsub32 :: "vec3 \<Rightarrow> vec3 \<Rightarrow> vec3" where
  "vsub32 a b = Vec3 (f32 (vx a - vx b)) (f32 (vy a - vy b)) (f32 (vz a - vz b))"

definition smul32 :: "real \<Rightarrow> vec3 \<Rightarrow> vec3" where
  "smul32 k a = Vec3 (f32 (k * vx a)) (f32 (k * vy a)) (f32 (k * vz a))"

definition dot32 :: "vec3 \<Rightarrow> vec3 \<Rightarrow> real" where
  "dot32 a b = f32 (f32 (f32 (vx a * vx b) + f32 (vy a * vy b)) + f32 (vz a * vz b))"

definition cross32 :: "vec3 \<Rightarrow> vec3 \<Rightarrow> vec3" where
  "cross32 a b = Vec3 (f32 (f32 (vy a * vz b) - f32 (vy b * vz a)))
                      (f32 (f32 (vz a * vx b) - f32 (vz b * vx a)))
                      (f32 (f32 (vx a * vy b) - f32 (vx b * vy a)))"

definition inversesqrt32 :: "real \<Rightarrow> real" where
  "inversesqrt32 a = f32 (1 / f32 (sqrt a))"

definition normalize32 :: "vec3 \<Rightarrow> vec3 option" where
  "normalize32 v =
     (if dot32 v v = 0 then None else Some (smul32 (inversesqrt32 (dot32 v v)) v))"

definition fadd32 :: "fvec3 \<Rightarrow> fvec3 \<Rightarrow> fvec3" where
  "fadd32 a b = (case a of None \<Rightarrow> None | Some u \<Rightarrow> map_option (vadd32 u) b)"

definition fsub32 :: "fvec3 \<Rightarrow> fvec3 \<Rightarrow> fvec3" where
  "fsub32 a b = (case a of None \<Rightarrow> None | Some u \<Rightarrow> map_option (vsub32 u) b)"

definition fmul32 :: "real \<Rightarrow> fvec3 \<Rightarrow> fvec3" where
  "fmul32 k a = map_option (smul32 k) a"

definition fcross32 :: "fvec3 \<Rightarrow> fvec3 \<Rightarrow> fvec3" where
  "fcross32 a b = (case a of None \<Rightarrow> None | Some u \<Rightarrow> map_option (cross32 u) b)"

definition fnormalize32 :: "fvec3 \<Rightarrow> fvec3" where
  "fnormalize32 a = (case a of None \<Rightarrow> None | Some u \<Rightarrow> normalize32 u)"

text \<open>
  The globals with the values their initializers have in binary32: \<^verbatim>\<open>0.03f\<close> and
  \<^verbatim>\<open>0.1f\<close> are the roundings of 3/100 and 1/10; the other initial values are
  representable.
\<close>

definition init_f32 :: state where
  "init_f32 = init\<lparr>cameraSpeed := f32 (3 / 100), sensitivity := f32 (1 / 10)\<rparr>"

text \<open>
  \<^verbatim>\<open>mouse_callback\<close> (lines 167 to 189) in binary32. \<^verbatim>\<open>lastX\<close> and \<^verbatim>\<open>lastY\<close> are
  \<^verbatim>\<open>float\<close> variables, so the assignments of lines 169, 170, 176 and 177 round the
  \<^verbatim>\<open>double\<close> coordinates. In lines 174 and 175 the difference and the product are
  \<^verbatim>\<open>double\<close> operations (the \<^verbatim>\<open>float\<close> operands convert exactly) and the result is
  rounded to \<^verbatim>\<open>float\<close>; lines 179 and 180 are \<^verbatim>\<open>float\<close> additions; the clamp
  returns one of its arguments. The evaluation of lines 184 to 188 depends on the
  overloads of \<^verbatim>\<open>cos\<close> and \<^verbatim>\<open>sin\<close> that the calls resolve to and on the C library; it
  is the parameter \<open>m\<close>, a function of the new yaw and pitch. \<open>front_rounded\<close> is the
  instance with \<^verbatim>\<open>float\<close> functions that round correctly.
\<close>

definition radians32 :: "real \<Rightarrow> real" where
  "radians32 degrees = f32 (degrees * f32 (1745329251994329576923690768489 / 10 ^ 32))"

definition front_rounded :: "real \<Rightarrow> real \<Rightarrow> fvec3" where
  "front_rounded yw ptch =
     normalize32
       (Vec3 (f32 (f32 (cos (radians32 yw)) * f32 (cos (radians32 ptch))))
             (f32 (sin (radians32 ptch)))
             (f32 (f32 (sin (radians32 yw)) * f32 (cos (radians32 ptch)))))"

definition mouse_callback_f32 ::
    "(real \<Rightarrow> real \<Rightarrow> fvec3) \<Rightarrow> state \<Rightarrow> real \<Rightarrow> real \<Rightarrow> state" where
  "mouse_callback_f32 m st xpos ypos =
     (let st1 = (if firstMouse st
                 then st\<lparr>lastX := f32 xpos, lastY := f32 ypos, firstMouse := False\<rparr>
                 else st);
          xOffset = f32 (f64 (f64 (xpos - lastX st1) * sensitivity st1));
          yOffset = f32 (f64 (f64 (lastY st1 - ypos) * sensitivity st1));
          st2 = st1\<lparr>lastX := f32 xpos, lastY := f32 ypos\<rparr>;
          st3 = st2\<lparr>yaw := f32 (yaw st2 + xOffset)\<rparr>;
          st4 = st3\<lparr>pitch := f32 (pitch st3 + yOffset)\<rparr>;
          st5 = st4\<lparr>pitch := glm_clamp (pitch st4) (-89) 89\<rparr>
      in st5\<lparr>cameraFront := m (yaw st5) (pitch st5)\<rparr>)"

text \<open>\<^verbatim>\<open>processInput\<close> (lines 192 to 205) in binary32: all operands are \<^verbatim>\<open>float\<close>.\<close>

definition processInput_f32 :: "key set \<Rightarrow> state \<Rightarrow> state" where
  "processInput_f32 pressed st =
     (let st1 = (if KEY_ESCAPE \<in> pressed then st\<lparr>shouldClose := True\<rparr> else st);
          velocity = cameraSpeed st1;
          st2 = (if KEY_W \<in> pressed
                 then st1\<lparr>cameraPos :=
                        fadd32 (cameraPos st1) (fmul32 velocity (cameraFront st1))\<rparr>
                 else st1);
          st3 = (if KEY_S \<in> pressed
                 then st2\<lparr>cameraPos :=
                        fsub32 (cameraPos st2) (fmul32 velocity (cameraFront st2))\<rparr>
                 else st2);
          st4 = (if KEY_A \<in> pressed
                 then st3\<lparr>cameraPos := fsub32 (cameraPos st3)
                        (fmul32 velocity
                           (fnormalize32 (fcross32 (cameraFront st3) (cameraUp st3))))\<rparr>
                 else st3);
          st5 = (if KEY_D \<in> pressed
                 then st4\<lparr>cameraPos := fadd32 (cameraPos st4)
                        (fmul32 velocity
                           (fnormalize32 (fcross32 (cameraFront st4) (cameraUp st4))))\<rparr>
                 else st4)
      in st5)"


fun ticks_f32 :: "nat \<Rightarrow> key set \<Rightarrow> state \<Rightarrow> state" where
  "ticks_f32 0 pressed st = st"
| "ticks_f32 (Suc n) pressed st = ticks_f32 n pressed (processInput_f32 pressed st)"

text \<open>
  Half the relative spacing of binary32, half its smallest positive value, and the bound
  on the drift of \<open>n\<close> rounded additions of a rounded step of size \<open>D\<close> to a coordinate
  that starts at size \<open>P\<close>.
\<close>

definition eps32 :: real where
  "eps32 = 1 / 2 ^ 24"

definition eta32 :: real where
  "eta32 = 1 / 2 ^ 150"

definition drift_bound :: "nat \<Rightarrow> real \<Rightarrow> real \<Rightarrow> real" where
  "drift_bound n P D =
     ((1 + eps32) ^ n - 1) / eps32
     * ((1 + eps32) * (eps32 * D + eta32) + eps32 * (P + real n * D) + eta32)"

section \<open>Helper facts\<close>












lemma mouse_callback_frame:
  "sensitivity (mouse_callback st xpos ypos) = sensitivity st
   \<and> cameraSpeed (mouse_callback st xpos ypos) = cameraSpeed st
   \<and> cameraUp (mouse_callback st xpos ypos) = cameraUp st
   \<and> shouldClose (mouse_callback st xpos ypos) = shouldClose st
   \<and> drawCalls (mouse_callback st xpos ypos) = drawCalls st"
  by (simp add: mouse_callback_def Let_def)





section \<open>Pitch clamp\<close>



section \<open>Unit front vector\<close>


section \<open>Frame conditions\<close>

text \<open>
  C9. \<^verbatim>\<open>mouse_callback\<close> leaves the camera position as it was, and \<^verbatim>\<open>processInput\<close>
  leaves yaw, pitch and the front vector as they were, for every input.
\<close>

theorem frame_effects:
  "cameraPos (mouse_callback st xpos ypos) = cameraPos st
   \<and> yaw (processInput pressed st) = yaw st
   \<and> pitch (processInput pressed st) = pitch st
   \<and> cameraFront (processInput pressed st) = cameraFront st"
  by (simp add: mouse_callback_def processInput_def Let_def)

section \<open>Strafe vector\<close>










section \<open>End-to-end scenario\<close>




section \<open>Escape closes the loop\<close>

lemma deliver_close: "shouldClose st \<Longrightarrow> shouldClose (deliver st e)"
  by (cases e) (simp_all add: mouse_callback_frame)

lemma deliver_draws: "drawCalls (deliver st e) = drawCalls st"
  by (cases e) (simp_all add: mouse_callback_frame)

lemma poll_close: "shouldClose st \<Longrightarrow> shouldClose (glfwPollEvents evs st)"
  unfolding glfwPollEvents_def
  by (induction evs arbitrary: st) (simp_all add: deliver_close)

lemma poll_draws: "drawCalls (glfwPollEvents evs st) = drawCalls st"
  unfolding glfwPollEvents_def
  by (induction evs arbitrary: st) (simp_all add: deliver_draws)

lemma processInput_escape:
  "shouldClose (processInput pressed st) = (KEY_ESCAPE \<in> pressed \<or> shouldClose st)"
  by (simp add: processInput_def Let_def)

lemma processInput_draws: "drawCalls (processInput pressed st) = drawCalls st"
  by (simp add: processInput_def Let_def)

lemma loop_body_escape: "KEY_ESCAPE \<in> keysHeld f \<Longrightarrow> shouldClose (loop_body f st)"
  by (simp add: loop_body_def poll_close render_def processInput_escape)

lemma loop_body_draws: "length (drawCalls (loop_body f st)) = Suc (length (drawCalls st))"
  by (simp add: loop_body_def poll_draws render_def processInput_draws)

lemma main_loop_closed: "shouldClose st \<Longrightarrow> main_loop st fs = st"
  by (cases fs) simp_all

lemma main_loop_append: "main_loop st (pre @ post) = main_loop (main_loop st pre) post"
  by (induction pre arbitrary: st) (simp_all add: main_loop_closed)

text \<open>
  C7. When the loop is still running after the frames \<open>pre\<close> and Escape is held when
  the next frame \<open>f\<close> samples the keys, the iteration for \<open>f\<close> is carried out and the
  state after it is \<open>Closing\<close>; whatever frames \<open>rest\<close> follow, the loop ends in that
  same state, so no iteration follows, and the draw calls are those made up to \<open>pre\<close>
  plus the one of the iteration for \<open>f\<close>.
\<close>

theorem escape_closes:
  assumes "loop_state_of (main_loop st pre) = Running" and "KEY_ESCAPE \<in> keysHeld f"
  shows "main_loop st (pre @ [f]) = loop_body f (main_loop st pre)
       \<and> loop_state_of (main_loop st (pre @ [f])) = Closing
       \<and> main_loop st (pre @ f # rest) = main_loop st (pre @ [f])
       \<and> length (drawCalls (main_loop st (pre @ f # rest)))
           = Suc (length (drawCalls (main_loop st pre)))"
proof -
  let ?s = "main_loop st pre"
  from assms(1) have run: "\<not> shouldClose ?s"
    by (simp add: loop_state_of_def split: if_splits)
  have one: "main_loop st (pre @ [f]) = loop_body f ?s"
    using run by (simp add: main_loop_append)
  have closed: "shouldClose (loop_body f ?s)"
    using assms(2) by (rule loop_body_escape)
  have all: "main_loop st (pre @ f # rest) = loop_body f ?s"
    using run closed by (simp add: main_loop_append main_loop_closed)
  show ?thesis
    using one closed all by (simp add: loop_state_of_def loop_body_draws)
qed

theorem escape_closes_witness:
  "loop_state_of (main_loop init []) = Running
   \<and> KEY_ESCAPE \<in> keysHeld \<lparr>keysHeld = {KEY_ESCAPE, KEY_W}, events = [CursorPos 1 2]\<rparr>
   \<and> loop_state_of (main_loop init
         ([] @ [\<lparr>keysHeld = {KEY_ESCAPE, KEY_W}, events = [CursorPos 1 2]\<rparr>])) = Closing
   \<and> length (drawCalls (main_loop init
        ([] @ \<lparr>keysHeld = {KEY_ESCAPE, KEY_W}, events = [CursorPos 1 2]\<rparr>
            # [\<lparr>keysHeld = {KEY_W}, events = []\<rparr>, \<lparr>keysHeld = {}, events = []\<rparr>]))) = 1"
proof -
  have h: "loop_state_of (main_loop init []) = Running"
    "KEY_ESCAPE \<in> keysHeld \<lparr>keysHeld = {KEY_ESCAPE, KEY_W}, events = [CursorPos 1 2]\<rparr>"
    by (simp_all add: loop_state_of_def init_def)
  note t = escape_closes [OF h,
      of "[\<lparr>keysHeld = {KEY_W}, events = []\<rparr>, \<lparr>keysHeld = {}, events = []\<rparr>]"]
  have c: "Suc (length (drawCalls (main_loop init []))) = 1"
    by (simp add: init_def)
  from t have a: "loop_state_of (main_loop init
         ([] @ [\<lparr>keysHeld = {KEY_ESCAPE, KEY_W}, events = [CursorPos 1 2]\<rparr>])) = Closing"
    by (rule conjunct1 [OF conjunct2])
  from t have b: "length (drawCalls (main_loop init
        ([] @ \<lparr>keysHeld = {KEY_ESCAPE, KEY_W}, events = [CursorPos 1 2]\<rparr>
            # [\<lparr>keysHeld = {KEY_W}, events = []\<rparr>, \<lparr>keysHeld = {}, events = []\<rparr>])))
        = Suc (length (drawCalls (main_loop init [])))"
    by (rule conjunct2 [OF conjunct2 [OF conjunct2]])
  show ?thesis
    using h a b [unfolded c] by (intro conjI)
qed

section \<open>Missing shader file\<close>

lemma readFile_None:
  "fs filepath = None \<Longrightarrow>
     readFile fs filepath = Inl (ios_base_failure (''Failed to read shader file: '' @ filepath))"
  by (simp add: readFile_def)

lemma readFile_Some: "fs filepath = Some contents \<Longrightarrow> readFile fs filepath = Inr contents"
  by (simp add: readFile_def)

lemma Shader_missing:
  "fs vertexPath = None \<or> fs fragmentPath = None \<Longrightarrow> isl (Shader gl fs vertexPath fragmentPath)"
  by (auto simp: Shader_def createShaderProgram_def readFile_def split: option.splits)

text \<open>
  C8. For every path: when the file cannot be opened \<^verbatim>\<open>readFile\<close> raises the I/O
  failure that names the path, and when it can be opened \<^verbatim>\<open>readFile\<close> returns its
  contents. When either shader file cannot be opened the construction of the shader
  raises, and \<^verbatim>\<open>main\<close>, once the window and the GL loader are set up, ends with that
  uncaught failure before the first frame.
\<close>

theorem missing_shader_fatal:
  "(fs filepath = None \<longrightarrow>
      readFile fs filepath = Inl (ios_base_failure (''Failed to read shader file: '' @ filepath)))
   \<and> (\<forall>contents. fs filepath = Some contents \<longrightarrow> readFile fs filepath = Inr contents)
   \<and> (fs vertexPath = None \<or> fs fragmentPath = None \<longrightarrow>
        (\<exists>e. Shader gl fs vertexPath fragmentPath = Inl e))
   \<and> (windowCreated env \<and> gladLoaded env
        \<and> (files env VERTEX_SHADER_PATH = None \<or> files env FRAGMENT_SHADER_PATH = None) \<longrightarrow>
        (\<exists>e. main env frames = (Uncaught e, init)))"
proof -
  have sh: "\<exists>e. Shader g fs' v fr = Inl e" if "fs' v = None \<or> fs' fr = None" for g fs' v fr
    using Shader_missing [OF that, of g] by (cases "Shader g fs' v fr") simp_all
  have m: "\<exists>e. main env frames = (Uncaught e, init)"
    if "windowCreated env" "gladLoaded env"
       "files env VERTEX_SHADER_PATH = None \<or> files env FRAGMENT_SHADER_PATH = None"
  proof -
    from sh [OF that(3), of "driver env"] obtain e
      where "Shader (driver env) (files env) VERTEX_SHADER_PATH FRAGMENT_SHADER_PATH = Inl e" ..
    with that(1,2) have "main env frames = (Uncaught e, init)"
      by (simp add: main_def)
    then show ?thesis ..
  qed
  show ?thesis
    using sh [of fs vertexPath fragmentPath gl] m
    by (simp add: readFile_None readFile_Some)
qed

theorem missing_shader_fatal_witness:
  "(\<lambda>p. if p = VERTEX_SHADER_PATH then Some ''void main() {}'' else None) FRAGMENT_SHADER_PATH = None
   \<and> (\<lambda>p. if p = VERTEX_SHADER_PATH then Some ''void main() {}'' else None) VERTEX_SHADER_PATH
       = Some ''void main() {}''
   \<and> readFile (\<lambda>p. if p = VERTEX_SHADER_PATH then Some ''void main() {}'' else None)
        FRAGMENT_SHADER_PATH
       = Inl (ios_base_failure ''Failed to read shader file: res/shaders/fragment_shader.glsl'')
   \<and> readFile (\<lambda>p. if p = VERTEX_SHADER_PATH then Some ''void main() {}'' else None)
        VERTEX_SHADER_PATH = Inr ''void main() {}''
   \<and> (\<exists>e. main \<lparr>windowCreated = True, gladLoaded = True,
                  files = (\<lambda>p. if p = VERTEX_SHADER_PATH then Some ''void main() {}'' else None),
                  driver = \<lparr>compileShader = (\<lambda>code t. 1), linkProgram = (\<lambda>v f. 3)\<rparr>\<rparr>
                [\<lparr>keysHeld = {KEY_W}, events = []\<rparr>] = (Uncaught e, init))"
  using missing_shader_fatal
          [of "\<lambda>p. if p = VERTEX_SHADER_PATH then Some ''void main() {}'' else None"
              FRAGMENT_SHADER_PATH VERTEX_SHADER_PATH FRAGMENT_SHADER_PATH
              "\<lparr>compileShader = (\<lambda>code t. 1), linkProgram = (\<lambda>v f. 3)\<rparr>"
              "\<lparr>windowCreated = True, gladLoaded = True,
                files = (\<lambda>p. if p = VERTEX_SHADER_PATH then Some ''void main() {}'' else None),
                driver = \<lparr>compileShader = (\<lambda>code t. 1), linkProgram = (\<lambda>v f. 3)\<rparr>\<rparr>"
              "[\<lparr>keysHeld = {KEY_W}, events = []\<rparr>]"]
        missing_shader_fatal
          [of "\<lambda>p. if p = VERTEX_SHADER_PATH then Some ''void main() {}'' else None"
              VERTEX_SHADER_PATH]
  by (simp add: VERTEX_SHADER_PATH_def FRAGMENT_SHADER_PATH_def)


section \<open>Facts about the rounding\<close>

lemma f32_unfold:
  "f32 x = (if x = 0 then 0
            else (let u = 2 powi (binade 127 \<bar>x\<bar> - 23) in of_int (rne (x / u)) * u))"
  by (simp add: f32_def round_binary_def)

lemma halvings_numeral:
  "halvings (numeral k) a = (if a < 2 then 0 else Suc (halvings (pred_numeral k) (a / 2)))"
  by (simp add: numeral_eq_Suc)

lemma doublings_numeral:
  "doublings (numeral k) a = (if 1 \<le> a then 0 else Suc (doublings (pred_numeral k) (2 * a)))"
  by (simp add: numeral_eq_Suc)

lemma powi2_eval: "(2::real) powi e = (if 0 \<le> e then 2 ^ nat e else 1 / 2 ^ nat (- e))"
  by (simp add: power_int_def inverse_eq_divide power_one_over)

lemmas f32_eval = f32_def f64_def round_binary_def binade_def rne_def Let_def
  halvings_numeral doublings_numeral powi2_eval

lemma rne_error: "\<bar>of_int (rne y) - y\<bar> \<le> 1 / 2"
  unfolding rne_def Let_def by (auto; linarith)


lemma halvings_lower: "1 \<le> a \<Longrightarrow> 2 ^ halvings n a \<le> a"
proof (induction n arbitrary: a)
  case 0
  then show ?case by simp
next
  case (Suc n)
  show ?case
  proof (cases "a < 2")
    case True
    with Suc.prems show ?thesis by simp
  next
    case False
    then have "1 \<le> a / 2" by simp
    from Suc.IH [OF this] False show ?thesis by simp
  qed
qed

lemma doublings_lower: "0 < a \<Longrightarrow> doublings n a = n \<or> 1 \<le> 2 ^ doublings n a * a"
proof (induction n arbitrary: a)
  case 0
  then show ?case by simp
next
  case (Suc n)
  show ?case
  proof (cases "1 \<le> a")
    case True
    then show ?thesis by simp
  next
    case False
    from Suc.prems have "0 < 2 * a" by simp
    from Suc.IH [OF this] False show ?thesis by (auto simp: mult.assoc)
  qed
qed

lemma binade_lower: "0 < a \<Longrightarrow> binade 127 a = - 126 \<or> 2 powi binade 127 a \<le> a"
proof (cases "1 \<le> a")
  case True
  then show ?thesis
    using halvings_lower [OF True, of 127] by (simp add: binade_def)
next
  case False
  assume a: "0 < a"
  from doublings_lower [OF a, of 126] show ?thesis
  proof
    assume "doublings 126 a = 126"
    with False show ?thesis by (simp add: binade_def)
  next
    assume h: "1 \<le> 2 ^ doublings 126 a * a"
    have e: "(2::real) powi (- int (doublings 126 a)) = 1 / 2 ^ doublings 126 a"
      by (simp add: power_int_minus field_simps)
    have "1 / 2 ^ doublings 126 a \<le> a"
      using h by (simp add: field_simps)
    with False show ?thesis
      by (simp add: binade_def e)
  qed
qed

lemma f32_error: "\<bar>f32 x - x\<bar> \<le> \<bar>x\<bar> / 2 ^ 24 + 1 / 2 ^ 150"
proof (cases "x = 0")
  case True
  then show ?thesis by (simp add: f32_unfold)
next
  case False
  define u :: real where "u = 2 powi (binade 127 \<bar>x\<bar> - 23)"
  have upos: "0 < u" by (simp add: u_def)
  have "f32 x - x = (of_int (rne (x / u)) - x / u) * u"
    using False upos by (simp add: f32_unfold Let_def u_def [symmetric] algebra_simps)
  then have "\<bar>f32 x - x\<bar> = \<bar>of_int (rne (x / u)) - x / u\<bar> * u"
    using upos by (simp add: abs_mult)
  also have "\<dots> \<le> 1 / 2 * u"
    using rne_error [of "x / u"] upos by (simp add: mult_right_mono)
  finally have half: "\<bar>f32 x - x\<bar> \<le> u / 2" by simp
  have "u / 2 \<le> \<bar>x\<bar> / 2 ^ 24 + 1 / 2 ^ 150"
    using binade_lower [of "\<bar>x\<bar>"]
  proof
    show "0 < \<bar>x\<bar>" using False by simp
  next
    assume "binade 127 \<bar>x\<bar> = - 126"
    then have "u = 1 / 2 ^ 149" by (simp add: u_def powi2_eval)
    then show ?thesis by simp
  next
    assume h: "2 powi binade 127 \<bar>x\<bar> \<le> \<bar>x\<bar>"
    have "u = 2 powi binade 127 \<bar>x\<bar> / 2 ^ 23"
      by (simp add: u_def power_int_diff)
    with h have "u / 2 \<le> \<bar>x\<bar> / 2 ^ 24" by simp
    then show ?thesis by simp
  qed
  with half show ?thesis by linarith
qed

lemma eps32_pos: "0 < eps32"
  by (simp add: eps32_def)

lemma f32_error': "\<bar>f32 a - a\<bar> \<le> eps32 * \<bar>a\<bar> + eta32"
  using f32_error [of a] by (simp add: eps32_def eta32_def)

lemma f32_zero: "f32 0 = 0"
  by (simp add: f32_unfold)


lemma speed_lit: "f32 (3 / 100) = 16106127 / 536870912"
  by (simp add: f32_eval)

lemma sens_lit: "f32 (1 / 10) = 13421773 / 134217728"
  by (simp add: f32_eval)

lemma neg_speed: "f32 (- (16106127 / 536870912)) = - (16106127 / 536870912)"
  by (simp add: f32_eval)


lemma funpow_numeral: "(f ^^ numeral k) x = (f ^^ pred_numeral k) (f x)"
  by (simp add: numeral_eq_Suc funpow_swap1)

section \<open>Facts about the binary32 model\<close>

lemma init_f32_fields:
  "yaw init_f32 = - 90" "pitch init_f32 = 0" "firstMouse init_f32"
  "sensitivity init_f32 = 13421773 / 134217728" "cameraSpeed init_f32 = 16106127 / 536870912"
  "cameraPos init_f32 = Some (Vec3 0 0 3)" "cameraFront init_f32 = Some (Vec3 0 0 (- 1))"
  "lastX init_f32 = 400" "lastY init_f32 = 300"
  by (simp_all add: init_f32_def init_def speed_lit sens_lit WINDOW_WIDTH_def WINDOW_HEIGHT_def)

lemma mouse_callback_f32_yaw:
  "yaw (mouse_callback_f32 m st xpos ypos) =
     f32 (yaw st
          + f32 (f64 (f64 (xpos - (if firstMouse st then f32 xpos else lastX st))
                      * sensitivity st)))"
  by (simp add: mouse_callback_f32_def Let_def)

lemma mouse_callback_f32_pitch:
  "pitch (mouse_callback_f32 m st xpos ypos) =
     glm_clamp (f32 (pitch st
                  + f32 (f64 (f64 ((if firstMouse st then f32 ypos else lastY st) - ypos)
                              * sensitivity st))))
               (- 89) 89"
  by (simp add: mouse_callback_f32_def Let_def)

lemma mouse_callback_f32_frame:
  "lastX (mouse_callback_f32 m st xpos ypos) = f32 xpos
   \<and> lastY (mouse_callback_f32 m st xpos ypos) = f32 ypos
   \<and> firstMouse (mouse_callback_f32 m st xpos ypos) = False
   \<and> sensitivity (mouse_callback_f32 m st xpos ypos) = sensitivity st
   \<and> cameraPos (mouse_callback_f32 m st xpos ypos) = cameraPos st"
  by (simp add: mouse_callback_f32_def Let_def)

lemma processInput_f32_cameraPos:
  "cameraPos (processInput_f32 pressed st) =
     (let v = cameraSpeed st; f = cameraFront st;
          s = fmul32 v (fnormalize32 (fcross32 f (cameraUp st)));
          p1 = (if KEY_W \<in> pressed then fadd32 (cameraPos st) (fmul32 v f) else cameraPos st);
          p2 = (if KEY_S \<in> pressed then fsub32 p1 (fmul32 v f) else p1);
          p3 = (if KEY_A \<in> pressed then fsub32 p2 s else p2)
      in (if KEY_D \<in> pressed then fadd32 p3 s else p3))"
  by (simp add: processInput_f32_def Let_def)

lemma processInput_f32_frame:
  "cameraFront (processInput_f32 pressed st) = cameraFront st
   \<and> cameraSpeed (processInput_f32 pressed st) = cameraSpeed st
   \<and> cameraUp (processInput_f32 pressed st) = cameraUp st
   \<and> yaw (processInput_f32 pressed st) = yaw st
   \<and> pitch (processInput_f32 pressed st) = pitch st"
  by (simp add: processInput_f32_def Let_def)

section \<open>First pointer sample\<close>

text \<open>
  C3. The first call of \<^verbatim>\<open>mouse_callback\<close> after initialization is meant to leave yaw
  and pitch as they were, and the second call to measure its offsets from the
  coordinates of the first. In binary32 it does not: at the coordinates
  \<open>(16777217, 33554433)\<close> the first call stores the rounded sample
  \<open>(16777216, 33554432)\<close> and applies the difference, so the yaw goes from \<open>-90\<close> to about
  \<open>-89.9\<close> and the pitch from \<open>0\<close> to about \<open>-0.1\<close>; a second call 100 units to the right
  measures 101 units from the stored sample and adds about \<open>10.1\<close> where the offset from
  the first coordinates is \<open>10\<close>; and at \<open>(400 + 2^-20, 300 + 2^-20)\<close> the first call
  leaves a pitch that is not 0.
\<close>

theorem first_sample_binary32:
  "yaw (mouse_callback_f32 front_rounded init_f32 16777217 33554433) = - 11783373 / 131072
   \<and> pitch (mouse_callback_f32 front_rounded init_f32 16777217 33554433) = - 13421773 / 134217728
   \<and> yaw (mouse_callback_f32 front_rounded init_f32 16777217 33554433) \<noteq> yaw init_f32
   \<and> pitch (mouse_callback_f32 front_rounded init_f32 16777217 33554433) \<noteq> pitch init_f32
   \<and> yaw (mouse_callback_f32 front_rounded (mouse_callback_f32 front_rounded init_f32 16777217 33554433)
              16777317 33554433)
       = - 5229773 / 65536
   \<and> lastX (mouse_callback_f32 front_rounded init_f32 16777217 33554433) = 16777216
   \<and> f32 (f64 (f64 (16777317 - 16777216) * sensitivity init_f32)) = 5295309 / 524288
   \<and> f32 (f64 (f64 (16777317 - 16777217) * sensitivity init_f32)) = 10
   \<and> pitch (mouse_callback_f32 front_rounded init_f32 (400 + 1 / 2 ^ 20) (300 + 1 / 2 ^ 20))
       = - 13421773 / 140737488355328"
  by (simp add: mouse_callback_f32_yaw mouse_callback_f32_pitch mouse_callback_f32_frame
        init_f32_fields glm_clamp_def f32_eval)

section \<open>Movement\<close>

lemma drift_abstract:
  fixes e h A M d v p :: real and rnd :: "real \<Rightarrow> real"
  assumes e: "0 \<le> e" and rnd: "\<And>a. \<bar>rnd a - a\<bar> \<le> e * \<bar>a\<bar> + h"
    and A: "\<bar>d - v\<bar> \<le> A"
  shows "\<bar>p\<bar> + real k * \<bar>v\<bar> \<le> M \<Longrightarrow>
     e * \<bar>((\<lambda>z. rnd (z + d)) ^^ k) p - (p + real k * v)\<bar>
       \<le> ((1 + e) ^ k - 1) * ((1 + e) * A + e * M + h)"
proof (induction k)
  case 0
  then show ?case by simp
next
  case (Suc k)
  define z where "z = ((\<lambda>z. rnd (z + d)) ^^ k) p"
  define C where "C = (1 + e) * A + e * M + h"
  define E where "E = \<bar>z - (p + real k * v)\<bar>"
  have h0: "0 \<le> h" using rnd [of 0] by simp
  have A0: "0 \<le> A" using A by linarith
  have v0: "0 \<le> \<bar>v\<bar>" by simp
  from Suc.prems have M1: "\<bar>p\<bar> + real k * \<bar>v\<bar> + \<bar>v\<bar> \<le> M"
    by (simp add: algebra_simps)
  then have Mk: "\<bar>p\<bar> + real k * \<bar>v\<bar> \<le> M" by linarith
  have M0: "0 \<le> M" using Mk
    by (meson abs_ge_zero add_nonneg_nonneg mult_nonneg_nonneg of_nat_0_le_iff order_trans)
  have C0: "0 \<le> C" unfolding C_def using e A0 M0 h0 by simp
  have IH: "e * E \<le> ((1 + e) ^ k - 1) * C"
    using Suc.IH [OF Mk] by (simp add: z_def E_def C_def)
  have tk: "\<bar>p + real k * v + v\<bar> \<le> M"
  proof -
    have "\<bar>p + real k * v + v\<bar> \<le> \<bar>p\<bar> + \<bar>real k * v\<bar> + \<bar>v\<bar>" by linarith
    also have "\<bar>real k * v\<bar> = real k * \<bar>v\<bar>" by (simp add: abs_mult)
    finally show ?thesis using M1 by linarith
  qed
  have zd: "\<bar>z + d\<bar> \<le> E + M + A"
    using tk A unfolding E_def by linarith
  have r: "\<bar>rnd (z + d) - (z + d)\<bar> \<le> e * (E + M + A) + h"
  proof -
    have "e * \<bar>z + d\<bar> \<le> e * (E + M + A)"
      using zd e by (rule mult_left_mono)
    with rnd [of "z + d"] show ?thesis by linarith
  qed
  have step: "\<bar>rnd (z + d) - (p + real (Suc k) * v)\<bar> \<le> (1 + e) * E + C"
  proof -
    have "\<bar>rnd (z + d) - (p + real (Suc k) * v)\<bar>
        \<le> \<bar>rnd (z + d) - (z + d)\<bar> + E + \<bar>d - v\<bar>"
      unfolding E_def by (simp add: algebra_simps)
    also have "\<dots> \<le> e * (E + M + A) + h + E + A"
      using r A by linarith
    also have "\<dots> = (1 + e) * E + C"
      by (simp add: C_def algebra_simps)
    finally show ?thesis .
  qed
  have "e * \<bar>rnd (z + d) - (p + real (Suc k) * v)\<bar> \<le> e * ((1 + e) * E + C)"
    using step e by (rule mult_left_mono)
  also have "\<dots> = (1 + e) * (e * E) + e * C"
    by (simp add: algebra_simps)
  also have "\<dots> \<le> (1 + e) * (((1 + e) ^ k - 1) * C) + e * C"
    using IH e by (simp add: mult_left_mono)
  also have "\<dots> = ((1 + e) ^ Suc k - 1) * C"
    by (simp add: algebra_simps)
  finally show ?case
    by (simp add: z_def C_def)
qed

lemma drift_f32:
  "\<bar>((\<lambda>z. f32 (z + f32 v)) ^^ n) p - (p + real n * v)\<bar> \<le> drift_bound n \<bar>p\<bar> \<bar>v\<bar>"
proof -
  define X where "X = \<bar>((\<lambda>z. f32 (z + f32 v)) ^^ n) p - (p + real n * v)\<bar>"
  define C where "C = (1 + eps32) * (eps32 * \<bar>v\<bar> + eta32)
                       + eps32 * (\<bar>p\<bar> + real n * \<bar>v\<bar>) + eta32"
  have e: "0 \<le> eps32" using eps32_pos by simp
  have "eps32 * X \<le> ((1 + eps32) ^ n - 1) * C"
    unfolding X_def C_def
    by (rule drift_abstract [where rnd = f32, OF e f32_error' f32_error']) simp
  then have "X \<le> ((1 + eps32) ^ n - 1) * C / eps32"
    using eps32_pos by (simp add: field_simps)
  then show ?thesis
    unfolding X_def C_def drift_bound_def by simp
qed

lemma component_cases: "c \<in> {vx, vy, vz} \<Longrightarrow> c = vx \<or> c = vy \<or> c = vz"
  by auto

lemma forward_component:
  "c \<in> {vx, vy, vz} \<Longrightarrow>
     c (((\<lambda>u. vadd32 u (smul32 s f)) ^^ n) p) = ((\<lambda>z. f32 (z + f32 (s * c f))) ^^ n) (c p)"
proof (induction n)
  case 0
  then show ?case by simp
next
  case (Suc n)
  then show ?case
    using component_cases [OF Suc.prems] by (auto simp: vadd32_def smul32_def)
qed

lemma processInput_f32_forward:
  assumes "KEY_W \<in> pressed" "KEY_S \<notin> pressed" "KEY_A \<notin> pressed" "KEY_D \<notin> pressed"
  shows "cameraPos (processInput_f32 pressed st)
           = fadd32 (cameraPos st) (fmul32 (cameraSpeed st) (cameraFront st))"
  using assms by (simp add: processInput_f32_cameraPos Let_def)

lemma ticks_f32_forward:
  assumes "KEY_W \<in> pressed" "KEY_S \<notin> pressed" "KEY_A \<notin> pressed" "KEY_D \<notin> pressed"
  shows "cameraPos st = Some p \<Longrightarrow> cameraFront st = Some f \<Longrightarrow> cameraSpeed st = s \<Longrightarrow>
     cameraPos (ticks_f32 n pressed st) = Some (((\<lambda>u. vadd32 u (smul32 s f)) ^^ n) p)"
proof (induction n arbitrary: st p)
  case 0
  then show ?case by simp
next
  case (Suc n)
  let ?st = "processInput_f32 pressed st"
  have a: "cameraPos ?st = Some (vadd32 p (smul32 s f))"
    using processInput_f32_forward [OF assms, of st] Suc.prems
    by (simp add: fadd32_def fmul32_def)
  have b: "cameraFront ?st = Some f" and c: "cameraSpeed ?st = s"
    using Suc.prems by (simp_all add: processInput_f32_frame)
  from Suc.IH [OF a b c] show ?case
    by (simp del: funpow.simps add: funpow_Suc_right)
qed

lemma pair_bound:
  "\<bar>f32 (f32 (z + f32 v) - f32 v) - z\<bar> \<le> (\<bar>z\<bar> + \<bar>v\<bar>) / 2 ^ 22 + 1 / 2 ^ 148"
proof -
  define d where "d = f32 v"
  define w where "w = f32 (z + d)"
  define r where "r = f32 (w - d)"
  define Z where "Z = \<bar>z\<bar>"
  define V where "V = \<bar>v\<bar>"
  define a where "a = \<bar>z + d\<bar>"
  define b where "b = \<bar>w - d\<bar>"
  define h :: real where "h = 1 / 2 ^ 150"
  have h0: "0 \<le> h" by (simp add: h_def)
  have p24: "(2::real) ^ 24 = 16777216" "(2::real) ^ 22 = 4194304"
    by simp_all
  have Z0: "0 \<le> Z" and V0: "0 \<le> V" and a0: "0 \<le> a" and b0: "0 \<le> b"
    by (simp_all add: Z_def V_def a_def b_def)
  have e1: "\<bar>d - v\<bar> \<le> V / 2 ^ 24 + h"
    unfolding d_def V_def h_def by (rule f32_error)
  have e2: "\<bar>w - (z + d)\<bar> \<le> a / 2 ^ 24 + h"
    unfolding w_def a_def h_def by (rule f32_error)
  have e3: "\<bar>r - (w - d)\<bar> \<le> b / 2 ^ 24 + h"
    unfolding r_def b_def h_def by (rule f32_error)
  have a1: "a \<le> Z + V + (V / 2 ^ 24 + h)"
    unfolding a_def Z_def V_def using e1 [unfolded V_def] by linarith
  have b1: "b \<le> Z + (a / 2 ^ 24 + h)"
    unfolding b_def Z_def using e2 by linarith
  have "\<bar>r - z\<bar> \<le> (b / 2 ^ 24 + h) + (a / 2 ^ 24 + h)"
    using e2 e3 by linarith
  also have "\<dots> \<le> (Z + V) / 2 ^ 22 + 4 * h"
  proof -
    have "b / 16777216 \<le> (Z + (a / 16777216 + h)) / 16777216"
      using b1 [unfolded p24] by (simp add: divide_right_mono)
    moreover have "a / 16777216 \<le> (Z + V + (V / 16777216 + h)) / 16777216"
      using a1 [unfolded p24] by (simp add: divide_right_mono)
    moreover have "a / 16777216 / 16777216
        \<le> (Z + V + (V / 16777216 + h)) / 16777216 / 16777216"
      using a1 [unfolded p24] by (simp add: divide_right_mono)
    ultimately show ?thesis
      unfolding p24 using Z0 V0 a0 b0 h0 by (simp add: field_simps)
  qed
  finally show ?thesis
    by (simp add: r_def w_def d_def Z_def V_def h_def)
qed

lemma pair_component:
  "c \<in> {vx, vy, vz} \<Longrightarrow>
     c (vsub32 (vadd32 p (smul32 s f)) (smul32 s f))
       = f32 (f32 (c p + f32 (s * c f)) - f32 (s * c f))"
  using component_cases [of c] by (auto simp: vadd32_def vsub32_def smul32_def)

lemma processInput_f32_pair:
  assumes "KEY_W \<in> pressed" "KEY_S \<in> pressed" "cameraPos st = Some p" "cameraFront st = Some f"
  shows "cameraPos (processInput_f32 pressed st)
           = cameraPos (processInput_f32 (pressed - {KEY_W, KEY_S})
               (st\<lparr>cameraPos := Some (vsub32 (vadd32 p (smul32 (cameraSpeed st) f))
                                                (smul32 (cameraSpeed st) f))\<rparr>))"
  using assms
  by (simp add: processInput_f32_cameraPos Let_def fadd32_def fsub32_def fmul32_def)

text \<open>
  C4, in binary32. From a state whose position is \<open>p\<close> and whose front vector is \<open>f\<close>:
  when W is held and S, A and D are not, after \<open>n\<close> ticks every coordinate of the
  position is within \<open>drift_bound n\<close> of the coordinate of \<open>p + n * speed * f\<close>, for every
  \<open>n\<close>; when W and S are both held in a tick, the tick is the one without these two keys
  from a position \<open>q\<close> whose coordinates are within
  \<open>(\<bar>p\<bar> + \<bar>speed * f\<bar>) / 2^22 + 2^-148\<close> of those of \<open>p\<close>.
\<close>

theorem movement_binary32:
  assumes "cameraPos st = Some p" and "cameraFront st = Some f"
  shows "(KEY_W \<in> pressed \<and> KEY_S \<notin> pressed \<and> KEY_A \<notin> pressed \<and> KEY_D \<notin> pressed \<longrightarrow>
            (\<exists>q. cameraPos (ticks_f32 n pressed st) = Some q
               \<and> (\<forall>c \<in> {vx, vy, vz}.
                     \<bar>c q - (c p + real n * (cameraSpeed st * c f))\<bar>
                       \<le> drift_bound n \<bar>c p\<bar> \<bar>cameraSpeed st * c f\<bar>)))
       \<and> (KEY_W \<in> pressed \<and> KEY_S \<in> pressed \<longrightarrow>
            (\<exists>q. (\<forall>c \<in> {vx, vy, vz}.
                     \<bar>c q - c p\<bar> \<le> (\<bar>c p\<bar> + \<bar>cameraSpeed st * c f\<bar>) / 2 ^ 22 + 1 / 2 ^ 148)
               \<and> cameraPos (processInput_f32 pressed st)
                   = cameraPos (processInput_f32 (pressed - {KEY_W, KEY_S})
                       (st\<lparr>cameraPos := Some q\<rparr>))))"
proof (intro conjI impI)
  assume k: "KEY_W \<in> pressed \<and> KEY_S \<notin> pressed \<and> KEY_A \<notin> pressed \<and> KEY_D \<notin> pressed"
  define q where "q = ((\<lambda>u. vadd32 u (smul32 (cameraSpeed st) f)) ^^ n) p"
  have "cameraPos (ticks_f32 n pressed st) = Some q"
    unfolding q_def using k assms by (intro ticks_f32_forward) simp_all
  moreover have "\<forall>c \<in> {vx, vy, vz}.
      \<bar>c q - (c p + real n * (cameraSpeed st * c f))\<bar>
        \<le> drift_bound n \<bar>c p\<bar> \<bar>cameraSpeed st * c f\<bar>"
    unfolding q_def by (intro ballI) (simp only: forward_component drift_f32)
  ultimately show "\<exists>q. cameraPos (ticks_f32 n pressed st) = Some q
      \<and> (\<forall>c \<in> {vx, vy, vz}.
            \<bar>c q - (c p + real n * (cameraSpeed st * c f))\<bar>
              \<le> drift_bound n \<bar>c p\<bar> \<bar>cameraSpeed st * c f\<bar>)"
    by blast
next
  assume k: "KEY_W \<in> pressed \<and> KEY_S \<in> pressed"
  define q where "q = vsub32 (vadd32 p (smul32 (cameraSpeed st) f)) (smul32 (cameraSpeed st) f)"
  have "\<forall>c \<in> {vx, vy, vz}.
      \<bar>c q - c p\<bar> \<le> (\<bar>c p\<bar> + \<bar>cameraSpeed st * c f\<bar>) / 2 ^ 22 + 1 / 2 ^ 148"
    unfolding q_def by (intro ballI) (simp only: pair_component pair_bound)
  moreover have "cameraPos (processInput_f32 pressed st)
      = cameraPos (processInput_f32 (pressed - {KEY_W, KEY_S}) (st\<lparr>cameraPos := Some q\<rparr>))"
    unfolding q_def using k assms by (intro processInput_f32_pair) simp_all
  ultimately show "\<exists>q. (\<forall>c \<in> {vx, vy, vz}.
        \<bar>c q - c p\<bar> \<le> (\<bar>c p\<bar> + \<bar>cameraSpeed st * c f\<bar>) / 2 ^ 22 + 1 / 2 ^ 148)
      \<and> cameraPos (processInput_f32 pressed st)
          = cameraPos (processInput_f32 (pressed - {KEY_W, KEY_S}) (st\<lparr>cameraPos := Some q\<rparr>))"
    by blast
qed

theorem movement_binary32_witness:
  "cameraPos init_f32 = Some (Vec3 0 0 3) \<and> cameraFront init_f32 = Some (Vec3 0 0 (- 1))
   \<and> (KEY_W \<in> {KEY_W} \<and> KEY_S \<notin> {KEY_W} \<and> KEY_A \<notin> {KEY_W} \<and> KEY_D \<notin> {KEY_W})
   \<and> (\<exists>q. cameraPos (ticks_f32 100 {KEY_W} init_f32) = Some q
          \<and> (\<forall>c \<in> {vx, vy, vz}.
                \<bar>c q - (c (Vec3 0 0 3) + real 100 * (cameraSpeed init_f32 * c (Vec3 0 0 (- 1))))\<bar>
                  \<le> drift_bound 100 \<bar>c (Vec3 0 0 3)\<bar>
                       \<bar>cameraSpeed init_f32 * c (Vec3 0 0 (- 1))\<bar>))
   \<and> (KEY_W \<in> {KEY_W, KEY_S} \<and> KEY_S \<in> {KEY_W, KEY_S})
   \<and> (\<exists>q. (\<forall>c \<in> {vx, vy, vz}.
                \<bar>c q - c (Vec3 0 0 3)\<bar>
                  \<le> (\<bar>c (Vec3 0 0 3)\<bar> + \<bar>cameraSpeed init_f32 * c (Vec3 0 0 (- 1))\<bar>) / 2 ^ 22
                     + 1 / 2 ^ 148)
          \<and> cameraPos (processInput_f32 {KEY_W, KEY_S} init_f32)
              = cameraPos (processInput_f32 ({KEY_W, KEY_S} - {KEY_W, KEY_S})
                  (init_f32\<lparr>cameraPos := Some q\<rparr>)))"
proof -
  have h: "cameraPos init_f32 = Some (Vec3 0 0 3)" "cameraFront init_f32 = Some (Vec3 0 0 (- 1))"
    by (simp_all add: init_f32_fields)
  have k1: "KEY_W \<in> {KEY_W} \<and> KEY_S \<notin> {KEY_W} \<and> KEY_A \<notin> {KEY_W} \<and> KEY_D \<notin> {KEY_W}"
    by simp
  have k2: "KEY_W \<in> {KEY_W, KEY_S} \<and> KEY_S \<in> {KEY_W, KEY_S}"
    by simp
  note t1 = movement_binary32 [OF h, of "{KEY_W}" 100, THEN conjunct1, rule_format, OF k1]
  note t2 = movement_binary32 [OF h, of "{KEY_W, KEY_S}" 0, THEN conjunct2, rule_format, OF k2]
  show ?thesis
    by (rule conjI [OF h(1) conjI [OF h(2) conjI [OF k1 conjI [OF t1 conjI [OF k2 t2]]]]])
qed

text \<open>
  The translation is not exact and the pair does not always cancel: one tick with W from
  the initial state gives \<open>z = 12457083/4194304\<close> where \<open>3 - 0.03f\<close> is
  \<open>1594506609/536870912\<close>, and after 104 ticks with W a tick with W and S moves \<open>z\<close>
  from \<open>-16105811/134217728\<close> to \<open>-8052905/67108864\<close>.
\<close>

lemma forward_z:
  assumes "cameraPos st = Some (Vec3 0 0 z)" "cameraFront st = Some (Vec3 0 0 (- 1))"
    "cameraSpeed st = c"
  shows "cameraPos (ticks_f32 n {KEY_W} st)
           = Some (Vec3 0 0 (((\<lambda>z. f32 (z + f32 (- c))) ^^ n) z))
       \<and> cameraFront (ticks_f32 n {KEY_W} st) = Some (Vec3 0 0 (- 1))
       \<and> cameraSpeed (ticks_f32 n {KEY_W} st) = c"
  using assms
proof (induction n arbitrary: st z)
  case 0
  then show ?case by simp
next
  case (Suc n)
  let ?st = "processInput_f32 {KEY_W} st"
  have a: "cameraPos ?st = Some (Vec3 0 0 (f32 (z + f32 (- c))))"
    using Suc.prems
    by (simp add: processInput_f32_cameraPos Let_def fadd32_def fmul32_def vadd32_def smul32_def
          f32_zero)
  have b: "cameraFront ?st = Some (Vec3 0 0 (- 1))" "cameraSpeed ?st = c"
    using Suc.prems by (simp_all add: processInput_f32_frame)
  from Suc.IH [OF a b] show ?case
    by (simp del: funpow.simps add: funpow_Suc_right)
qed

lemma z1: "((\<lambda>z. f32 (z + - (16106127 / 536870912))) ^^ 1) 3 = 12457083 / 4194304"
  by (simp add: f32_eval)

lemma z104: "((\<lambda>z. f32 (z + - (16106127 / 536870912))) ^^ 104) 3 = - 16105811 / 134217728"
  by (simp add: funpow_numeral f32_eval)

theorem movement_binary32_counterexample:
  "cameraPos (ticks_f32 1 {KEY_W} init_f32) = Some (Vec3 0 0 (12457083 / 4194304))
   \<and> vadd (Vec3 0 0 3) (smul (real 1 * cameraSpeed init_f32) (Vec3 0 0 (- 1)))
       = Vec3 0 0 (1594506609 / 536870912)
   \<and> cameraPos (ticks_f32 104 {KEY_W} init_f32) = Some (Vec3 0 0 (- 16105811 / 134217728))
   \<and> cameraPos (processInput_f32 {KEY_W, KEY_S} (ticks_f32 104 {KEY_W} init_f32))
       = Some (Vec3 0 0 (- 8052905 / 67108864))
   \<and> cameraPos (ticks_f32 1 {KEY_W} init_f32)
       \<noteq> Some (vadd (Vec3 0 0 3) (smul (real 1 * cameraSpeed init_f32) (Vec3 0 0 (- 1))))
   \<and> cameraPos (processInput_f32 {KEY_W, KEY_S} (ticks_f32 104 {KEY_W} init_f32))
       \<noteq> cameraPos (ticks_f32 104 {KEY_W} init_f32)"
proof -
  note i = init_f32_fields(6,7,5)
  have a: "cameraPos (ticks_f32 1 {KEY_W} init_f32) = Some (Vec3 0 0 (12457083 / 4194304))"
    using forward_z [OF i, of 1] by (simp add: neg_speed z1 [simplified])
  have b: "vadd (Vec3 0 0 3) (smul (real 1 * cameraSpeed init_f32) (Vec3 0 0 (- 1)))
       = Vec3 0 0 (1594506609 / 536870912)"
    by (simp add: vadd_def smul_def init_f32_fields)
  note f = forward_z [OF i, of 104, unfolded neg_speed z104]
  have c: "cameraPos (ticks_f32 104 {KEY_W} init_f32) = Some (Vec3 0 0 (- 16105811 / 134217728))"
    using f by simp
  have d: "cameraPos (processInput_f32 {KEY_W, KEY_S} (ticks_f32 104 {KEY_W} init_f32))
       = Some (Vec3 0 0 (- 8052905 / 67108864))"
    using f
    by (simp add: processInput_f32_cameraPos Let_def fadd32_def fsub32_def fmul32_def
          vadd32_def vsub32_def smul32_def f32_zero f32_eval)
  have e: "cameraPos (ticks_f32 1 {KEY_W} init_f32)
       \<noteq> Some (vadd (Vec3 0 0 3) (smul (real 1 * cameraSpeed init_f32) (Vec3 0 0 (- 1))))"
    unfolding a b by simp
  have g: "cameraPos (processInput_f32 {KEY_W, KEY_S} (ticks_f32 104 {KEY_W} init_f32))
       \<noteq> cameraPos (ticks_f32 104 {KEY_W} init_f32)"
    unfolding c d by simp
  show ?thesis
    by (rule conjI [OF a conjI [OF b conjI [OF c conjI [OF d conjI [OF e g]]]]])
qed

section \<open>Accumulated yaw\<close>






end
